theory Spec2Isabelle
  imports Complex_Main
begin

section \<open>Python built-ins used by the shop\<close>

text \<open>
  Strings are lists of 8-bit characters, so the model covers the ASCII inputs of the
  program.  Money (\<open>Unit_Price\<close>, \<open>Total_Amount\<close>, \<open>Total_Purchases\<close>) is a number of
  the tables, a float where the source makes one; it is modelled by \<^typ>\<open>rat\<close>, with the
  additions and multiplications kept in the order in which the source performs them.
  The model computes them exactly, where a float product or sum is rounded; the figures
  that the theorems below assert (products and sums of small whole numbers) are exact
  in floats as well.
\<close>

subsection \<open>\<open>int(s)\<close>\<close>

text \<open>
  The white space that \<open>int\<close> skips around a number is the tab, line feed, vertical tab,
  form feed, carriage return and the space; \<open>str.strip\<close> drops the four separators
  \<open>0x1C\<close> to \<open>0x1F\<close> as well.
\<close>

definition int_space :: "char \<Rightarrow> bool" where
  "int_space c = (let n = (of_char c :: nat) in (9 \<le> n \<and> n \<le> 13) \<or> n = 32)"

definition is_space :: "char \<Rightarrow> bool" where
  "is_space c = (let n = (of_char c :: nat) in (9 \<le> n \<and> n \<le> 13) \<or> (28 \<le> n \<and> n \<le> 32))"

definition is_digit :: "char \<Rightarrow> bool" where
  "is_digit c = (48 \<le> (of_char c :: nat) \<and> (of_char c :: nat) \<le> 57)"

definition digit_val :: "char \<Rightarrow> nat" where
  "digit_val c = of_char c - 48"

definition strip :: "string \<Rightarrow> string" where
  "strip s = rev (dropWhile is_space (rev (dropWhile is_space s)))"

definition int_strip :: "string \<Rightarrow> string" where
  "int_strip s = rev (dropWhile int_space (rev (dropWhile int_space s)))"

text \<open>
  The digits of a decimal literal: groups of digits, single underscores allowed between
  two digits only.  The flag says whether the previous character was a digit.
\<close>

fun digits :: "bool \<Rightarrow> nat \<Rightarrow> string \<Rightarrow> nat option" where
  "digits prev acc [] = (if prev then Some acc else None)"
| "digits prev acc (c # cs) =
     (if is_digit c then digits True (10 * acc + digit_val c) cs
      else if c = CHR ''_'' \<and> prev then digits False acc cs
      else None)"

text \<open>
  \<open>int(s)\<close> on a string: surrounding white space is dropped, one sign may lead, the
  digits follow.  \<open>None\<close> stands for the \<open>ValueError\<close>.  The limit that recent
  interpreters put on the number of digits is not modelled.
\<close>

definition py_int :: "string \<Rightarrow> int option" where
  "py_int s =
     (case int_strip s of
        [] \<Rightarrow> None
      | c # cs \<Rightarrow>
          if c = CHR ''-'' then map_option (\<lambda>n. - int n) (digits False 0 cs)
          else if c = CHR ''+'' then map_option int (digits False 0 cs)
          else map_option int (digits False 0 (c # cs)))"

subsection \<open>\<open>f"{n:0wd}"\<close>\<close>

definition digit_char :: "nat \<Rightarrow> char" where
  "digit_char d = ''0123456789'' ! d"

fun str_nat :: "nat \<Rightarrow> string" where
  "str_nat n = (if n < 10 then [digit_char n] else str_nat (n div 10) @ [digit_char (n mod 10)])"

declare str_nat.simps [simp del]

definition zfill :: "nat \<Rightarrow> string \<Rightarrow> string" where
  "zfill w s = replicate (w - length s) (CHR ''0'') @ s"

text \<open>Zero padding is sign aware: the sign counts in the width and precedes the zeros.\<close>

definition format_d :: "nat \<Rightarrow> int \<Rightarrow> string" where
  "format_d w n =
     (if n < 0 then CHR ''-'' # zfill (w - 1) (str_nat (nat (- n)))
      else zfill w (str_nat (nat n)))"

subsection \<open>\<open>s.split(' - ')\<close>\<close>

fun py_split :: "string \<Rightarrow> string \<Rightarrow> string \<Rightarrow> string list" where
  "py_split sep cur [] = [cur]"
| "py_split sep cur (c # cs) =
     (if sep \<noteq> [] \<and> take (length sep) (c # cs) = sep
      then cur # py_split sep [] (drop (length sep) (c # cs))
      else py_split sep (cur @ [c]) cs)"

definition split_dash :: "string \<Rightarrow> string list" where
  "split_dash s = py_split '' - '' [] s"

subsection \<open>Row selection in a table\<close>

text \<open>\<open>df[df[col] == v].index[0]\<close>: the position of the first matching row, if any.\<close>

fun first_index :: "('a \<Rightarrow> bool) \<Rightarrow> 'a list \<Rightarrow> nat option" where
  "first_index P [] = None"
| "first_index P (x # xs) = (if P x then Some 0 else map_option Suc (first_index P xs))"

section \<open>Data model\<close>

datatype py_exception = IndexError | ValueError | AttributeError

record product =
  Product_ID :: string
  Product_Name :: string
  Category :: string
  Unit_Price :: rat
  Stock_Quantity :: int
  Min_Stock_Level :: int
  Supplier :: string

record customer =
  Customer_ID :: string
  Customer_Name :: string
  Phone :: string
  Email :: string
  Address :: string
  Registration_Date :: string
  Total_Purchases :: rat

text \<open>
  A row of the sales ledger.  The columns \<open>Customer_ID\<close>, \<open>Customer_Name\<close>,
  \<open>Product_ID\<close>, \<open>Product_Name\<close> and \<open>Unit_Price\<close> of the source carry the prefix
  \<open>Sale_\<close> here, since the other tables have columns of the same names.
\<close>

record sale_record =
  Sale_ID :: string
  Date :: string
  Time :: string
  Sale_Customer_ID :: string
  Sale_Customer_Name :: string
  Sale_Product_ID :: string
  Sale_Product_Name :: string
  Quantity :: int
  Sale_Unit_Price :: rat
  Total_Amount :: rat
  Payment_Method :: string

record cart_item =
  product_id :: string
  product_name :: string
  quantity :: int
  unit_price :: rat
  total :: rat

text \<open>An entry of a shopping list: the keys \<open>product\<close>, \<open>quantity\<close>, \<open>notes\<close>.\<close>

record list_item =
  list_product :: string
  list_quantity :: int
  list_notes :: string

text \<open>
  The tables in memory and the cart.  \<open>shopping_lists\<close> is the dictionary from
  customer ids to lists, kept as an association list and read with \<^const>\<open>map_of\<close>.
\<close>

record shop =
  inventory :: "product list"
  sales_records :: "sale_record list"
  customers :: "customer list"
  shopping_lists :: "(string \<times> list_item list) list"
  current_cart :: "cart_item list"

text \<open>What the user is shown at the end of an operation.\<close>

datatype message =
    No_Message
  | Warning_Select_Product
  | Warning_Select_Cart_Item
  | Warning_Select_Inventory_Product
  | Warning_Cart_Empty
  | Warning_Select_Customer
  | Warning_Shopping_List_Empty
  | Warning_No_Items_Added
  | Stock_Warning string int int
  | Error_Quantity_Positive
  | Error_Not_Enough_Stock
  | Error_Valid_Quantity
  | Error_Processing_Sale py_exception
  | Error_Customer_Name_Required
  | Error_Adding_Customer py_exception
  | Error_All_Fields_Required
  | Error_Valid_Numbers
  | Error_Stock_Negative
  | Error_Valid_Number
  | Error_Updating_Stock py_exception
  | Uncaught py_exception
  | Success_Sale string rat
  | Success_Customer string
  | Success_Product string
  | Success_Stock_Updated
  | Success_Items_Added nat

section \<open>Sales\<close>

subsection \<open>\<open>add_to_cart\<close>\<close>

definition add_item :: "product \<Rightarrow> string \<Rightarrow> string \<Rightarrow> shop \<Rightarrow> message \<times> shop" where
  "add_item product pid qty_var st =
     (case py_int qty_var of
        None \<Rightarrow> (Error_Valid_Quantity, st)
      | Some qty \<Rightarrow>
          if qty \<le> 0 then (Error_Quantity_Positive, st)
          else if qty > Stock_Quantity product then (Error_Not_Enough_Stock, st)
          else (No_Message,
                st\<lparr>current_cart := current_cart st @
                  [\<lparr>product_id = pid, product_name = Product_Name product, quantity = qty,
                    unit_price = Unit_Price product,
                    total = of_int qty * Unit_Price product\<rparr>]\<rparr>))"

text \<open>
  The selected row of the product table gives the product id; the quantity dialog is
  confirmed with the text \<open>qty_var\<close>.
\<close>

definition add_to_cart :: "string option \<Rightarrow> string \<Rightarrow> shop \<Rightarrow> message \<times> shop" where
  "add_to_cart selection qty_var st =
     (case selection of
        None \<Rightarrow> (Warning_Select_Product, st)
      | Some pid \<Rightarrow>
          (case find (\<lambda>p. Product_ID p = pid) (inventory st) of
             None \<Rightarrow> (Uncaught IndexError, st)
           | Some product \<Rightarrow> add_item product pid qty_var st))"

subsection \<open>\<open>remove_from_cart\<close>\<close>


subsection \<open>\<open>clear_cart\<close>\<close>

definition clear_cart :: "shop \<Rightarrow> shop" where
  "clear_cart st = st\<lparr>current_cart := []\<rparr>"

subsection \<open>\<open>process_sale\<close>\<close>

definition sale_row ::
  "string \<Rightarrow> string \<Rightarrow> string \<Rightarrow> string \<Rightarrow> string \<Rightarrow> string \<Rightarrow> cart_item \<Rightarrow> sale_record" where
  "sale_row sale_id date time customer_id customer_name payment item =
     \<lparr>Sale_ID = sale_id, Date = date, Time = time,
      Sale_Customer_ID = customer_id, Sale_Customer_Name = customer_name,
      Sale_Product_ID = product_id item, Sale_Product_Name = product_name item,
      Quantity = quantity item, Sale_Unit_Price = unit_price item,
      Total_Amount = total item, Payment_Method = payment\<rparr>"

definition decrement_stock :: "nat \<Rightarrow> int \<Rightarrow> product list \<Rightarrow> product list" where
  "decrement_stock idx qty invt =
     invt[idx := (invt ! idx)\<lparr>Stock_Quantity := Stock_Quantity (invt ! idx) - qty\<rparr>]"

text \<open>
  The loop over the cart.  Each round appends the ledger row, then looks the product up:
  \<open>.index[0]\<close> raises \<open>IndexError\<close> when no row of the inventory has the id, and the
  tables stay as they are at that point (\<open>Inl\<close>).  Otherwise the loop ends with the
  tables and the total of the sale (\<open>Inr\<close>).
\<close>

fun sale_loop ::
  "(cart_item \<Rightarrow> sale_record) \<Rightarrow> cart_item list \<Rightarrow> product list \<Rightarrow> sale_record list \<Rightarrow> rat \<Rightarrow>
     (product list \<times> sale_record list) + (product list \<times> sale_record list \<times> rat)" where
  "sale_loop row [] invt sales total_sale_amount = Inr (invt, sales, total_sale_amount)"
| "sale_loop row (item # rest) invt sales total_sale_amount =
     (let sales' = sales @ [row item] in
      case first_index (\<lambda>p. Product_ID p = product_id item) invt of
        None \<Rightarrow> Inl (invt, sales')
      | Some idx \<Rightarrow>
          sale_loop row rest (decrement_stock idx (quantity item) invt) sales'
            (total_sale_amount + total item))"

definition credit_customer :: "string \<Rightarrow> rat \<Rightarrow> customer list \<Rightarrow> customer list" where
  "credit_customer customer_id amount cs =
     (case first_index (\<lambda>c. Customer_ID c = customer_id) cs of
        None \<Rightarrow> cs
      | Some i \<Rightarrow> cs[i := (cs ! i)\<lparr>Total_Purchases := Total_Purchases (cs ! i) + amount\<rparr>])"

text \<open>
  \<open>customer_info\<close> is the text of the customer box, \<open>payment\<close> the payment method, and
  \<open>date\<close>, \<open>time\<close> the formatted clock.  Saving the files changes nothing in memory and
  reports its own failures on the console, so it does not appear.
\<close>

definition process_sale :: "string \<Rightarrow> string \<Rightarrow> string \<Rightarrow> string \<Rightarrow> shop \<Rightarrow> message \<times> shop" where
  "process_sale customer_info payment date time st =
     (if current_cart st = [] then (Warning_Cart_Empty, st)
      else if customer_info = [] then (Warning_Select_Customer, st)
      else
        let parts = split_dash customer_info in
        if length parts < 2 then (Error_Processing_Sale IndexError, st)
        else
          let customer_id = parts ! 0;
              customer_name = parts ! 1;
              sale_id = CHR ''S'' # format_d 4 (int (length (sales_records st)) + 1)
          in
          case sale_loop (sale_row sale_id date time customer_id customer_name payment)
                 (current_cart st) (inventory st) (sales_records st) 0 of
            Inl (invt, sales) \<Rightarrow>
              (Error_Processing_Sale IndexError, st\<lparr>inventory := invt, sales_records := sales\<rparr>)
          | Inr (invt, sales, total_sale_amount) \<Rightarrow>
              (Success_Sale sale_id total_sale_amount,
               clear_cart (st\<lparr>inventory := invt, sales_records := sales,
                 customers := credit_customer customer_id total_sale_amount (customers st)\<rparr>)))"

section \<open>Inventory and customers\<close>

subsection \<open>\<open>update_stock_dialog\<close>\<close>

text \<open>
  The stock cell of a line of the inventory table, as the table hands it back: the text
  \<open>"n (LOW!)"\<close> for a product at or below its minimum level, the number itself
  otherwise.
\<close>

datatype cell = Int_Cell int | Str_Cell string

definition stock_display :: "product \<Rightarrow> cell" where
  "stock_display row =
     (if Stock_Quantity row \<le> Min_Stock_Level row
      then Str_Cell (format_d 0 (Stock_Quantity row) @ '' (LOW!)'')
      else Int_Cell (Stock_Quantity row))"

text \<open>The nested \<open>update_stock\<close>, run when the dialog is confirmed with the text \<open>stock_var\<close>.\<close>

definition update_stock :: "string \<Rightarrow> string \<Rightarrow> shop \<Rightarrow> message \<times> shop" where
  "update_stock pid stock_var st =
     (case py_int stock_var of
        None \<Rightarrow> (Error_Valid_Number, st)
      | Some new_quantity \<Rightarrow>
          if new_quantity < 0 then (Error_Stock_Negative, st)
          else
            (case first_index (\<lambda>p. Product_ID p = pid) (inventory st) of
               None \<Rightarrow> (Error_Updating_Stock IndexError, st)
             | Some idx \<Rightarrow>
                 (Success_Stock_Updated,
                  st\<lparr>inventory := (inventory st)
                    [idx := (inventory st ! idx)\<lparr>Stock_Quantity := new_quantity\<rparr>]\<rparr>)))"

text \<open>
  The selection is the inventory row shown in the chosen line of the inventory table.
  The dialog splits the stock cell at the space before it opens; a cell that is a number
  has no \<open>split\<close>, and the \<open>AttributeError\<close> ends the operation outside any handler.
\<close>

definition update_stock_dialog :: "product option \<Rightarrow> string \<Rightarrow> shop \<Rightarrow> message \<times> shop" where
  "update_stock_dialog selection stock_var st =
     (case selection of
        None \<Rightarrow> (Warning_Select_Inventory_Product, st)
      | Some row \<Rightarrow>
          (case stock_display row of
             Int_Cell n \<Rightarrow> (Uncaught AttributeError, st)
           | Str_Cell current_stock \<Rightarrow> update_stock (Product_ID row) stock_var st))"

subsection \<open>\<open>add_product_dialog\<close>\<close>

text \<open>
  The fields of the product form.  \<open>price_var\<close> holds the outcome of
  \<open>float(price_var.get())\<close>: \<open>None\<close> when it raises \<open>ValueError\<close>, the number
  otherwise (infinities and NaN are outside the model).  The other fields are the texts.
\<close>

record product_form =
  name_var :: string
  category_var :: string
  price_var :: "rat option"
  stock_var :: string
  min_stock_var :: string
  supplier_var :: string

text \<open>The id of the next product; \<open>None\<close> when \<open>int(last_id[1:])\<close> raises.\<close>

definition new_product_id :: "product list \<Rightarrow> string option" where
  "new_product_id invt =
     (if length invt > 0
      then map_option (\<lambda>last_num. CHR ''P'' # format_d 3 (last_num + 1))
             (py_int (drop 1 (Product_ID (last invt))))
      else Some ''P001'')"

text \<open>
  Every \<open>ValueError\<close> of the body ends in the same message.  \<open>all([...])\<close> tests the
  truth value of the name, the category, the price and the supplier: an empty string and
  the number zero are false.
\<close>

definition save_product :: "product_form \<Rightarrow> shop \<Rightarrow> message \<times> shop" where
  "save_product form st =
     (case new_product_id (inventory st) of
        None \<Rightarrow> (Error_Valid_Numbers, st)
      | Some pid \<Rightarrow>
     (case price_var form of
        None \<Rightarrow> (Error_Valid_Numbers, st)
      | Some price \<Rightarrow>
     (case py_int (stock_var form) of
        None \<Rightarrow> (Error_Valid_Numbers, st)
      | Some stock \<Rightarrow>
     (case py_int (min_stock_var form) of
        None \<Rightarrow> (Error_Valid_Numbers, st)
      | Some min_stock \<Rightarrow>
          if \<not> (name_var form \<noteq> [] \<and> category_var form \<noteq> [] \<and> price \<noteq> 0 \<and>
                supplier_var form \<noteq> [])
          then (Error_All_Fields_Required, st)
          else (Success_Product pid,
                st\<lparr>inventory := inventory st @
                  [\<lparr>Product_ID = pid, Product_Name = name_var form,
                    Category = category_var form, Unit_Price = price,
                    Stock_Quantity = stock, Min_Stock_Level = min_stock,
                    Supplier = supplier_var form\<rparr>]\<rparr>)))))"

subsection \<open>\<open>add_new_customer\<close>\<close>

record customer_form =
  customer_name_var :: string
  phone_var :: string
  email_var :: string
  address_text :: string

definition new_customer_id :: "customer list \<Rightarrow> string option" where
  "new_customer_id cs =
     (if length cs > 0
      then map_option (\<lambda>last_num. CHR ''C'' # format_d 3 (last_num + 1))
             (py_int (drop 1 (Customer_ID (last cs))))
      else Some ''C001'')"

text \<open>\<open>today\<close> is the formatted date of the registration.\<close>

definition save_customer :: "customer_form \<Rightarrow> string \<Rightarrow> shop \<Rightarrow> message \<times> shop" where
  "save_customer form today st =
     (case new_customer_id (customers st) of
        None \<Rightarrow> (Error_Adding_Customer ValueError, st)
      | Some cid \<Rightarrow>
          if customer_name_var form = [] then (Error_Customer_Name_Required, st)
          else (Success_Customer cid,
                st\<lparr>customers := customers st @
                  [\<lparr>Customer_ID = cid, Customer_Name = customer_name_var form,
                    Phone = phone_var form, Email = email_var form,
                    Address = strip (address_text form), Registration_Date = today,
                    Total_Purchases = 0\<rparr>]\<rparr>))"

section \<open>Shopping lists\<close>

subsection \<open>\<open>add_shopping_list_to_cart\<close>\<close>

definition cart_line :: "product \<Rightarrow> list_item \<Rightarrow> cart_item" where
  "cart_line product li =
     \<lparr>product_id = Product_ID product, product_name = Product_Name product,
      quantity = list_quantity li, unit_price = Unit_Price product,
      total = of_int (list_quantity li) * Unit_Price product\<rparr>"

text \<open>
  The loop over the list: the stock warnings shown on the way, the cart and the number of
  items added.  An item whose name matches no product has no branch of its own.
\<close>

fun list_loop ::
  "product list \<Rightarrow> list_item list \<Rightarrow> cart_item list \<Rightarrow> nat \<Rightarrow>
     message list \<times> cart_item list \<times> nat" where
  "list_loop invt [] cart items_added = ([], cart, items_added)"
| "list_loop invt (li # rest) cart items_added =
     (case find (\<lambda>p. Product_Name p = list_product li) invt of
        None \<Rightarrow> list_loop invt rest cart items_added
      | Some product \<Rightarrow>
          if Stock_Quantity product \<ge> list_quantity li
          then list_loop invt rest (cart @ [cart_line product li]) (items_added + 1)
          else
            (case list_loop invt rest cart items_added of
               (shown, cart', n) \<Rightarrow>
                 (Stock_Warning (Product_Name product) (Stock_Quantity product)
                    (list_quantity li) # shown, cart', n)))"

text \<open>The messages are listed in the order in which they are shown.\<close>

definition add_shopping_list_to_cart :: "string \<Rightarrow> shop \<Rightarrow> message list \<times> shop" where
  "add_shopping_list_to_cart customer_info st =
     (if customer_info = [] then ([Warning_Select_Customer], st)
      else
        let customer_id = hd (split_dash customer_info) in
        case map_of (shopping_lists st) customer_id of
          None \<Rightarrow> ([Warning_Shopping_List_Empty], st)
        | Some items \<Rightarrow>
            if items = [] then ([Warning_Shopping_List_Empty], st)
            else
              (case list_loop (inventory st) items (current_cart st) 0 of
                 (shown, cart, items_added) \<Rightarrow>
                   (shown @ [if items_added > 0 then Success_Items_Added items_added
                             else Warning_No_Items_Added],
                    st\<lparr>current_cart := cart\<rparr>)))"

section \<open>Example states\<close>

text \<open>The first product of the sample inventory, one registered customer, an empty ledger.\<close>

definition rice :: product where
  "rice = \<lparr>Product_ID = ''P001'', Product_Name = ''Rice (1kg)'', Category = ''Grains'',
     Unit_Price = 80, Stock_Quantity = 50, Min_Stock_Level = 10, Supplier = ''Supplier A''\<rparr>"

definition asha :: customer where
  "asha = \<lparr>Customer_ID = ''C001'', Customer_Name = ''Asha'', Phone = ''555'', Email = [],
     Address = [], Registration_Date = ''2024-01-01'', Total_Purchases = 0\<rparr>"

definition example_shop :: shop where
  "example_shop = \<lparr>inventory = [rice], sales_records = [], customers = [asha],
     shopping_lists = [], current_cart = []\<rparr>"

definition example_cart_shop :: shop where
  "example_cart_shop = snd (add_to_cart (Some ''P001'') ''3'' example_shop)"

text \<open>A shop with empty tables, and the forms of one new product and one new customer.\<close>

definition empty_shop :: shop where
  "empty_shop = \<lparr>inventory = [], sales_records = [], customers = [], shopping_lists = [],
     current_cart = []\<rparr>"

definition tea_form :: product_form where
  "tea_form = \<lparr>name_var = ''Tea (250g)'', category_var = ''Beverages'', price_var = Some 95,
     stock_var = ''12'', min_stock_var = ''4'', supplier_var = ''Supplier G''\<rparr>"

definition ravi_form :: customer_form where
  "ravi_form = \<lparr>customer_name_var = ''Ravi'', phone_var = ''556'', email_var = [],
     address_text = '' 12 Hill Road ''\<rparr>"

text \<open>A digit that is neither white space nor a sign: the characters of a formatted number.\<close>

definition plain_digit :: "char \<Rightarrow> bool" where
  "plain_digit c = (is_digit c \<and> \<not> int_space c \<and> c \<noteq> CHR ''-'' \<and> c \<noteq> CHR ''+'')"

text \<open>
  States reached from the example shop through the operations of the program: a cart with
  two lines of a scarce product, a cart whose product had its stock lowered afterwards
  (the product is below its minimum level, so its stock dialog opens), and carts filled
  after an earlier sale of one line and of two lines.
\<close>

definition scarce_shop :: shop where
  "scarce_shop = example_shop\<lparr>inventory := [rice\<lparr>Stock_Quantity := 5\<rparr>]\<rparr>"

definition scarce_cart_shop :: shop where
  "scarce_cart_shop =
     snd (add_to_cart (Some ''P001'') ''3'' (snd (add_to_cart (Some ''P001'') ''3'' scarce_shop)))"

definition lowered_cart_shop :: shop where
  "lowered_cart_shop =
     snd (update_stock_dialog (Some (rice\<lparr>Stock_Quantity := 5\<rparr>)) ''2''
       (snd (add_to_cart (Some ''P001'') ''3'' scarce_shop)))"

definition two_line_cart_shop :: shop where
  "two_line_cart_shop = snd (add_to_cart (Some ''P001'') ''2'' example_cart_shop)"

definition after_one_line_sale :: shop where
  "after_one_line_sale =
     snd (add_to_cart (Some ''P001'') ''1''
       (snd (process_sale ''C001 - Asha'' ''Cash'' ''2024-05-01'' ''10:00:00'' example_cart_shop)))"

definition after_two_line_sale :: shop where
  "after_two_line_sale =
     snd (add_to_cart (Some ''P001'') ''1''
       (snd (process_sale ''C001 - Asha'' ''Cash'' ''2024-05-01'' ''10:00:00'' two_line_cart_shop)))"

text \<open>
  Shops whose last ids are \<open>P999\<close>, \<open>C999\<close> and \<open>P0009\<close>, \<open>C0009\<close>, a shop with a
  shopping list of one known and one unknown product, and a product form with a negative
  price.
\<close>

definition nines_shop :: shop where
  "nines_shop = example_shop\<lparr>inventory := [rice\<lparr>Product_ID := ''P999''\<rparr>],
     customers := [asha\<lparr>Customer_ID := ''C999''\<rparr>]\<rparr>"

definition wide_shop :: shop where
  "wide_shop = example_shop\<lparr>inventory := [rice\<lparr>Product_ID := ''P0009''\<rparr>],
     customers := [asha\<lparr>Customer_ID := ''C0009''\<rparr>]\<rparr>"

definition listed_shop :: shop where
  "listed_shop = example_shop\<lparr>shopping_lists :=
     [(''C001'', [\<lparr>list_product = ''Rice (1kg)'', list_quantity = 2, list_notes = []\<rparr>,
                  \<lparr>list_product = ''Saffron'', list_quantity = 1, list_notes = ''if any''\<rparr>])]\<rparr>"

definition free_form :: product_form where
  "free_form = tea_form\<lparr>price_var := Some (- 5)\<rparr>"

text \<open>
  What one entry of a shopping list contributes on its own: the cart line it yields, and
  the stock warning it triggers.
\<close>

definition accepted_line :: "product list \<Rightarrow> list_item \<Rightarrow> cart_item option" where
  "accepted_line invt li =
     (case find (\<lambda>p. Product_Name p = list_product li) invt of
        None \<Rightarrow> None
      | Some product \<Rightarrow>
          if Stock_Quantity product \<ge> list_quantity li then Some (cart_line product li)
          else None)"

definition shown_warning :: "product list \<Rightarrow> list_item \<Rightarrow> message option" where
  "shown_warning invt li =
     (case find (\<lambda>p. Product_Name p = list_product li) invt of
        None \<Rightarrow> None
      | Some product \<Rightarrow>
          if Stock_Quantity product \<ge> list_quantity li then None
          else Some (Stock_Warning (Product_Name product) (Stock_Quantity product)
                 (list_quantity li)))"

section \<open>Runs of the program\<close>


text \<open>
  The quantity that a cart takes from the inventory row at position \<open>j\<close>: the lines whose
  product id is first found at that position.
\<close>

definition taken :: "product list \<Rightarrow> cart_item list \<Rightarrow> nat \<Rightarrow> int" where
  "taken invt cart j =
     sum_list (map quantity
       (filter (\<lambda>item. first_index (\<lambda>p. Product_ID p = product_id item) invt = Some j) cart))"



section \<open>Auxiliary facts\<close>

lemma first_index_Some: "first_index P xs = Some i \<Longrightarrow> i < length xs \<and> P (xs ! i)"
  by (induction xs arbitrary: i) (auto split: if_splits)

lemma first_index_None: "first_index P xs = None \<longleftrightarrow> (\<forall>x\<in>set xs. \<not> P x)"
  by (induction xs) auto

lemma decrement_stock_ids: "map Product_ID (decrement_stock idx qty invt) = map Product_ID invt"
proof (cases "idx < length invt")
  case True
  then have "(map Product_ID invt)[idx := map Product_ID invt ! idx] = map Product_ID invt"
    by (simp only: list_update_id)
  with True show ?thesis by (simp add: decrement_stock_def map_update)
next
  case False
  then have "invt[idx := (invt ! idx)\<lparr>Stock_Quantity := Stock_Quantity (invt ! idx) - qty\<rparr>] = invt"
    by (intro list_update_beyond) simp
  then show ?thesis by (simp add: decrement_stock_def)
qed

lemma sale_loop_Inr:
  "sale_loop row cart invt sales tot = Inr (invt', sales', tot') \<Longrightarrow>
     sales' = sales @ map row cart \<and> map Product_ID invt' = map Product_ID invt"
proof (induction cart arbitrary: invt sales tot)
  case Nil
  then show ?case by simp
next
  case (Cons item rest)
  from Cons.prems obtain idx where
    idx: "first_index (\<lambda>p. Product_ID p = product_id item) invt = Some idx" and
    run: "sale_loop row rest (decrement_stock idx (quantity item) invt) (sales @ [row item])
            (tot + total item) = Inr (invt', sales', tot')"
    by (auto simp: Let_def split: option.splits)
  from Cons.IH [OF run] show ?case by (simp add: decrement_stock_ids)
qed

lemma sale_loop_total:
  "\<forall>item\<in>set cart. product_id item \<in> Product_ID ` set invt \<Longrightarrow>
     \<exists>invt' tot'. sale_loop row cart invt sales tot = Inr (invt', sales @ map row cart, tot')"
proof (induction cart arbitrary: invt sales tot)
  case Nil
  then show ?case by simp
next
  case (Cons item rest)
  from Cons.prems have "\<exists>x\<in>set invt. Product_ID x = product_id item" by auto
  then obtain idx where idx: "first_index (\<lambda>p. Product_ID p = product_id item) invt = Some idx"
    using first_index_None [of "\<lambda>p. Product_ID p = product_id item" invt] by auto
  have "set (map Product_ID (decrement_stock idx (quantity item) invt)) = set (map Product_ID invt)"
    by (simp only: decrement_stock_ids)
  then have "\<forall>i\<in>set rest. product_id i \<in> Product_ID ` set (decrement_stock idx (quantity item) invt)"
    using Cons.prems by simp
  from Cons.IH [OF this, of "sales @ [row item]" "tot + total item"]
  show ?case using idx by (simp add: Let_def)
qed

lemma process_sale_success:
  assumes "process_sale ci pay d t st = (Success_Sale sid tot, st')"
  shows "current_cart st \<noteq> [] \<and> ci \<noteq> [] \<and> 2 \<le> length (split_dash ci) \<and>
         sid = CHR ''S'' # format_d 4 (int (length (sales_records st)) + 1) \<and>
         (\<exists>invt'. sale_loop (sale_row sid d t (split_dash ci ! 0) (split_dash ci ! 1) pay)
             (current_cart st) (inventory st) (sales_records st) 0
            = Inr (invt', sales_records st', tot) \<and> inventory st' = invt') \<and>
         customers st' = credit_customer (split_dash ci ! 0) tot (customers st) \<and>
         shopping_lists st' = shopping_lists st \<and>
         current_cart st' = []"
  using assms
  by (auto simp: process_sale_def Let_def clear_cart_def split: if_splits sum.splits prod.splits)

lemma py_split_nonempty: "py_split sep cur s \<noteq> []"
  by (induction sep cur s rule: py_split.induct) auto

lemma split_dash_C001: "split_dash (''C001 - '' @ cn) = ''C001'' # split_dash cn"
  by (simp add: split_dash_def)

lemma py_int_3: "py_int ''3'' = Some 3"
  by code_simp

section \<open>Checkout\<close>

text \<open>
  C3.  With product \<open>P001\<close> priced 80 and stocked 50 in the catalog and customer
  \<open>C001\<close> at total purchases 0, adding 3 of \<open>P001\<close> to the cart and checking out
  appends one ledger row with product \<open>P001\<close>, quantity 3, unit price 80 and total
  240, leaves the stock of \<open>P001\<close> at 47 and the customer's total purchases at 240.
  The other fields, the other products and customers and the earlier ledger are arbitrary.
\<close>

theorem C3_checkout_scenario:
  "let p = \<lparr>Product_ID = ''P001'', Product_Name = nm, Category = cat, Unit_Price = 80,
             Stock_Quantity = 50, Min_Stock_Level = ml, Supplier = sp\<rparr>;
       c = \<lparr>Customer_ID = ''C001'', Customer_Name = cn, Phone = ph, Email = em,
             Address = ad, Registration_Date = rd, Total_Purchases = 0\<rparr>;
       st = \<lparr>inventory = p # ps, sales_records = led, customers = c # cs,
              shopping_lists = sl, current_cart = []\<rparr>;
       st1 = snd (add_to_cart (Some ''P001'') ''3'' st);
       res = process_sale (''C001 - '' @ cn) pay d t st1;
       row = last (sales_records (snd res))
   in current_cart st1 = [\<lparr>product_id = ''P001'', product_name = nm, quantity = 3,
                            unit_price = 80, total = 240\<rparr>] \<and>
      fst res = Success_Sale (CHR ''S'' # format_d 4 (int (length led) + 1)) 240 \<and>
      sales_records (snd res) = led @ [row] \<and>
      Sale_Product_ID row = ''P001'' \<and> Quantity row = 3 \<and> Sale_Unit_Price row = 80 \<and>
      Total_Amount row = 240 \<and>
      inventory (snd res) = p\<lparr>Stock_Quantity := 47\<rparr> # ps \<and>
      customers (snd res) = c\<lparr>Total_Purchases := 240\<rparr> # cs"
proof -
  define p where "p = \<lparr>Product_ID = ''P001'', Product_Name = nm, Category = cat,
    Unit_Price = 80, Stock_Quantity = 50, Min_Stock_Level = ml, Supplier = sp\<rparr>"
  define c where "c = \<lparr>Customer_ID = ''C001'', Customer_Name = cn, Phone = ph, Email = em,
    Address = ad, Registration_Date = rd, Total_Purchases = 0\<rparr>"
  define item where "item = \<lparr>product_id = ''P001'', product_name = nm, quantity = 3,
    unit_price = 80, total = 240\<rparr>"
  define st where "st = \<lparr>inventory = p # ps, sales_records = led, customers = c # cs,
    shopping_lists = sl, current_cart = []\<rparr>"
  define sid where "sid = CHR ''S'' # format_d 4 (int (length led) + 1)"
  define row where "row = sale_row sid d t ''C001'' (split_dash cn ! 0) pay item"
  have add: "snd (add_to_cart (Some ''P001'') ''3'' st) = st\<lparr>current_cart := [item]\<rparr>"
    by (simp add: add_to_cart_def add_item_def py_int_3 st_def p_def item_def)
  have parts: "2 \<le> length (split_dash (''C001 - '' @ cn))"
    "split_dash (''C001 - '' @ cn) ! 0 = ''C001''"
    "split_dash (''C001 - '' @ cn) ! 1 = split_dash cn ! 0"
    using py_split_nonempty [of "'' - ''" "[]" cn]
    by (cases "split_dash cn"; simp add: split_dash_C001 split_dash_def)+
  have loop: "sale_loop (sale_row sid d t ''C001'' (split_dash cn ! 0) pay) [item] (p # ps) led 0
      = Inr (p\<lparr>Stock_Quantity := 47\<rparr> # ps, led @ [row], 240)"
    by (simp add: p_def item_def row_def decrement_stock_def)
  have credit: "credit_customer ''C001'' 240 (c # cs) = c\<lparr>Total_Purchases := 240\<rparr> # cs"
    by (simp add: credit_customer_def c_def)
  have sale: "process_sale (''C001 - '' @ cn) pay d t (st\<lparr>current_cart := [item]\<rparr>)
      = (Success_Sale sid 240,
         \<lparr>inventory = p\<lparr>Stock_Quantity := 47\<rparr> # ps, sales_records = led @ [row],
          customers = c\<lparr>Total_Purchases := 240\<rparr> # cs, shopping_lists = sl,
          current_cart = []\<rparr>)"
    using parts
    by (simp add: process_sale_def Let_def st_def sid_def [symmetric] loop credit clear_cart_def
        del: sale_loop.simps)
  have fields: "Sale_Product_ID row = ''P001'' \<and> Quantity row = 3 \<and>
      Sale_Unit_Price row = 80 \<and> Total_Amount row = 240"
    by (simp add: row_def sale_row_def item_def)
  show ?thesis
    unfolding Let_def p_def [symmetric] c_def [symmetric] st_def [symmetric] add sale
    using fields by (simp add: item_def sid_def)
qed

text \<open>
  C10.  A successful checkout leaves the cart empty, and a checkout that follows it
  directly only reports the empty cart and changes nothing.
\<close>

theorem C10_cart_cleared:
  assumes "process_sale ci pay d t st = (Success_Sale sid tot, st')"
  shows "current_cart st' = [] \<and> process_sale ci' pay' d' t' st' = (Warning_Cart_Empty, st')"
proof -
  from process_sale_success [OF assms] have "current_cart st' = []" by simp
  then show ?thesis by (simp add: process_sale_def)
qed

theorem C10_cart_cleared_witness:
  "fst (process_sale ''C001 - Asha'' ''Cash'' ''2024-05-01'' ''10:00:00'' example_cart_shop)
     = Success_Sale ''S0001'' 240 \<and>
   current_cart example_cart_shop \<noteq> [] \<and>
   current_cart (snd (process_sale ''C001 - Asha'' ''Cash'' ''2024-05-01'' ''10:00:00''
     example_cart_shop)) = [] \<and>
   fst (process_sale ''C001 - Asha'' ''Cash'' ''2024-05-02'' ''11:00:00''
     (snd (process_sale ''C001 - Asha'' ''Cash'' ''2024-05-01'' ''10:00:00'' example_cart_shop)))
     = Warning_Cart_Empty"
proof -
  have msg: "fst (process_sale ''C001 - Asha'' ''Cash'' ''2024-05-01'' ''10:00:00''
      example_cart_shop) = Success_Sale ''S0001'' 240"
    by code_simp
  then have run: "process_sale ''C001 - Asha'' ''Cash'' ''2024-05-01'' ''10:00:00'' example_cart_shop
    = (Success_Sale ''S0001'' 240,
       snd (process_sale ''C001 - Asha'' ''Cash'' ''2024-05-01'' ''10:00:00'' example_cart_shop))"
    by (metis prod.collapse)
  have cart: "current_cart example_cart_shop \<noteq> []"
    by code_simp
  note after = C10_cart_cleared [OF run, of "''C001 - Asha''" "''Cash''" "''2024-05-02''" "''11:00:00''"]
  from after have again: "fst (process_sale ''C001 - Asha'' ''Cash'' ''2024-05-02'' ''11:00:00''
     (snd (process_sale ''C001 - Asha'' ''Cash'' ''2024-05-01'' ''10:00:00'' example_cart_shop)))
     = Warning_Cart_Empty"
    by simp
  from msg cart after again show ?thesis by blast
qed

section \<open>Parsing a formatted number\<close>

lemma below_ten: "(d::nat) < 10 \<Longrightarrow> d \<in> {0, 1, 2, 3, 4, 5, 6, 7, 8, 9}"
  by auto

lemma digit_char_props:
  assumes "d < 10"
  shows "is_digit (digit_char d)" "digit_val (digit_char d) = d" "\<not> int_space (digit_char d)"
    "digit_char d \<noteq> CHR ''-''" "digit_char d \<noteq> CHR ''+''"
  using below_ten [OF assms]
  by (auto simp: is_digit_def digit_val_def digit_char_def int_space_def)

lemma plain_digit_char: "d < 10 \<Longrightarrow> plain_digit (digit_char d)"
  by (simp add: plain_digit_def digit_char_props)

lemma plain_zero: "plain_digit (CHR ''0'')"
  by (simp add: plain_digit_def is_digit_def int_space_def)

lemma str_nat_plain: "str_nat n \<noteq> [] \<and> (\<forall>c\<in>set (str_nat n). plain_digit c)"
proof (induction n rule: str_nat.induct)
  case (1 n)
  show ?case
  proof (cases "n < 10")
    case True
    then show ?thesis by (simp add: str_nat.simps [of n] plain_digit_char)
  next
    case False
    with 1 show ?thesis by (simp add: str_nat.simps [of n] plain_digit_char)
  qed
qed

lemma digits_str_nat:
  "digits prev acc (str_nat n @ rest) = digits True (acc * 10 ^ length (str_nat n) + n) rest"
proof (induction n arbitrary: prev acc rest rule: str_nat.induct)
  case (1 n)
  show ?case
  proof (cases "n < 10")
    case True
    then show ?thesis by (simp add: str_nat.simps [of n] digit_char_props mult.commute)
  next
    case False
    have d: "n mod 10 < 10" by simp
    have "digits prev acc (str_nat n @ rest)
        = digits prev acc (str_nat (n div 10) @ digit_char (n mod 10) # rest)"
      using False by (simp add: str_nat.simps [of n])
    also have "\<dots> = digits True (acc * 10 ^ length (str_nat (n div 10)) + n div 10)
        (digit_char (n mod 10) # rest)"
      using 1 [OF False] by simp
    also have "\<dots> = digits True
        (10 * (acc * 10 ^ length (str_nat (n div 10)) + n div 10) + n mod 10) rest"
      using d by (simp add: digit_char_props)
    also have "10 * (acc * 10 ^ length (str_nat (n div 10)) + n div 10) + n mod 10
        = acc * 10 ^ length (str_nat n) + n"
      using False by (simp add: str_nat.simps [of n] algebra_simps)
    finally show ?thesis .
  qed
qed

lemma digits_zeros:
  "digits prev 0 (replicate k (CHR ''0'') @ rest) = digits (prev \<or> 0 < k) 0 rest"
  by (induction k arbitrary: prev) (simp_all add: is_digit_def digit_val_def)

lemma digits_zfill: "digits False 0 (zfill w (str_nat n)) = Some n"
proof -
  have "digits False 0 (zfill w (str_nat n))
      = digits (0 < w - length (str_nat n)) 0 (str_nat n @ [])"
    by (simp add: zfill_def digits_zeros)
  also have "\<dots> = Some n"
    by (simp only: digits_str_nat) simp
  finally show ?thesis .
qed

lemma zfill_plain: "zfill w (str_nat n) \<noteq> [] \<and> (\<forall>c\<in>set (zfill w (str_nat n)). plain_digit c)"
  using str_nat_plain [of n] by (auto simp: zfill_def plain_zero)

lemma int_strip_plain_end:
  assumes "s \<noteq> []" "\<not> int_space (hd s)" "\<not> int_space (last s)"
  shows "int_strip s = s"
proof -
  from assms have a: "dropWhile int_space s = s"
    by (cases s) simp_all
  from assms have "dropWhile int_space (rev s) = rev s"
    by (cases "rev s") (simp_all add: hd_rev [symmetric])
  with a show ?thesis by (simp add: int_strip_def)
qed

lemma py_int_format_d: "py_int (format_d w n) = Some n"
proof (cases "n < 0")
  case False
  let ?s = "zfill w (str_nat (nat n))"
  from zfill_plain [of w "nat n"] obtain c cs where s: "?s = c # cs"
    by (cases ?s) auto
  from zfill_plain [of w "nat n"] have pl: "plain_digit (hd ?s)" "plain_digit (last ?s)"
    by auto
  then have "int_strip ?s = ?s"
    using zfill_plain [of w "nat n"] by (intro int_strip_plain_end) (simp_all add: plain_digit_def)
  moreover from pl s have "c \<noteq> CHR ''-''" "c \<noteq> CHR ''+''"
    by (simp_all add: plain_digit_def)
  moreover have "digits False 0 (c # cs) = Some (nat n)"
    using digits_zfill [of w "nat n"] s by simp
  ultimately show ?thesis
    using False s by (simp add: py_int_def format_d_def)
next
  case True
  let ?s = "zfill (w - 1) (str_nat (nat (- n)))"
  from zfill_plain [of "w - 1" "nat (- n)"] have ne: "?s \<noteq> []" and pl: "plain_digit (last ?s)"
    by auto
  have "int_strip (CHR ''-'' # ?s) = CHR ''-'' # ?s"
    using ne pl by (intro int_strip_plain_end) (simp_all add: plain_digit_def int_space_def)
  then show ?thesis
    using True digits_zfill [of "w - 1" "nat (- n)"] by (simp add: py_int_def format_d_def)
qed

lemma length_format_d: "w \<le> length (format_d w n)"
  by (auto simp: format_d_def zfill_def)

lemma length_str_nat_3: "n < 1000 \<Longrightarrow> length (str_nat n) \<le> 3"
  by (simp add: str_nat.simps [of n] str_nat.simps [of "n div 10"] str_nat.simps [of "n div 10 div 10"])

lemma length_format_d_3: "0 \<le> n \<Longrightarrow> n < 1000 \<Longrightarrow> length (format_d 3 n) = 3"
  using length_str_nat_3 [of "nat n"] by (simp add: format_d_def zfill_def)

section \<open>Sequential ids\<close>

lemma new_product_id_next:
  assumes "new_product_id invt = Some pid"
  shows "(if invt = [] then pid = ''P001''
          else \<exists>n. py_int (drop 1 (Product_ID (last invt))) = Some n \<and>
                 pid = CHR ''P'' # format_d 3 (n + 1)) \<and>
         (\<exists>m. py_int (drop 1 pid) = Some m \<and> 4 \<le> length pid \<and>
           (0 \<le> m \<and> m < 1000 \<longrightarrow> length pid = 4) \<and>
              new_product_id (invt @ [p\<lparr>Product_ID := pid\<rparr>]) = Some (CHR ''P'' # format_d 3 (m + 1)))"
proof (cases "invt = []")
  case True
  with assms have pid: "pid = ''P001''" by (simp add: new_product_id_def)
  have "py_int ''001'' = Some 1" by code_simp
  with pid True show ?thesis by (simp add: new_product_id_def)
next
  case False
  with assms obtain n where n: "py_int (drop 1 (Product_ID (last invt))) = Some n"
    and pid: "pid = CHR ''P'' # format_d 3 (n + 1)"
    by (auto simp: new_product_id_def)
  with False show ?thesis
    using length_format_d [of 3 "n + 1"]
    by (simp add: new_product_id_def py_int_format_d length_format_d_3)
qed

lemma new_customer_id_next:
  assumes "new_customer_id cs = Some cid"
  shows "(if cs = [] then cid = ''C001''
          else \<exists>n. py_int (drop 1 (Customer_ID (last cs))) = Some n \<and>
                 cid = CHR ''C'' # format_d 3 (n + 1)) \<and>
         (\<exists>m. py_int (drop 1 cid) = Some m \<and> 4 \<le> length cid \<and>
           (0 \<le> m \<and> m < 1000 \<longrightarrow> length cid = 4) \<and>
              new_customer_id (cs @ [c\<lparr>Customer_ID := cid\<rparr>]) = Some (CHR ''C'' # format_d 3 (m + 1)))"
proof (cases "cs = []")
  case True
  with assms have cid: "cid = ''C001''" by (simp add: new_customer_id_def)
  have "py_int ''001'' = Some 1" by code_simp
  with cid True show ?thesis by (simp add: new_customer_id_def)
next
  case False
  with assms obtain n where n: "py_int (drop 1 (Customer_ID (last cs))) = Some n"
    and cid: "cid = CHR ''C'' # format_d 3 (n + 1)"
    by (auto simp: new_customer_id_def)
  with False show ?thesis
    using length_format_d [of 3 "n + 1"]
    by (simp add: new_customer_id_def py_int_format_d length_format_d_3)
qed

lemma save_product_success:
  assumes "save_product form st = (Success_Product pid, st')"
  shows "\<exists>p. new_product_id (inventory st) = Some pid \<and>
           st' = st\<lparr>inventory := inventory st @ [p\<lparr>Product_ID := pid\<rparr>]\<rparr>"
  using assms unfolding save_product_def
  by (auto split: option.splits if_splits intro!: exI [of _ "\<lparr>Product_ID = pid, Product_Name = name_var form,
      Category = category_var form, Unit_Price = the (price_var form),
      Stock_Quantity = the (py_int (stock_var form)), Min_Stock_Level = the (py_int (min_stock_var form)),
      Supplier = supplier_var form\<rparr>"])

lemma save_customer_success:
  assumes "save_customer form today st = (Success_Customer cid, st')"
  shows "\<exists>c. new_customer_id (customers st) = Some cid \<and>
           st' = st\<lparr>customers := customers st @ [c\<lparr>Customer_ID := cid\<rparr>]\<rparr>"
  using assms unfolding save_customer_def
  by (auto split: option.splits if_splits intro!: exI [of _ "\<lparr>Customer_ID = cid, Customer_Name = customer_name_var form,
      Phone = phone_var form, Email = email_var form, Address = strip (address_text form),
      Registration_Date = today, Total_Purchases = 0\<rparr>"])

text \<open>
  C9, as stated, fails on the width: after \<open>P999\<close> and \<open>C999\<close> the ids are \<open>P1000\<close> and
  \<open>C1000\<close>, and after \<open>P0009\<close> and \<open>C0009\<close> they are \<open>P010\<close> and \<open>C010\<close>.
\<close>

theorem C9_width_counterexample:
  "map Product_ID (inventory nines_shop) = [''P999''] \<and>
   fst (save_product tea_form nines_shop) = Success_Product ''P1000'' \<and>
   map Customer_ID (customers nines_shop) = [''C999''] \<and>
   fst (save_customer ravi_form ''2024-05-01'' nines_shop) = Success_Customer ''C1000'' \<and>
   map Product_ID (inventory wide_shop) = [''P0009''] \<and>
   fst (save_product tea_form wide_shop) = Success_Product ''P010'' \<and>
   map Customer_ID (customers wide_shop) = [''C0009''] \<and>
   fst (save_customer ravi_form ''2024-05-01'' wide_shop) = Success_Customer ''C010''"
  by code_simp

text \<open>
  C9, amended.  A product or customer that is added gets the id made of the prefix \<open>P\<close>
  or \<open>C\<close> and the integer parsed from the last record's id plus 1, zero-padded to a
  width of at least three, whatever the width of the last id: three digits exactly while
  the integer is between 0 and 999, more beyond.  In an empty table the id is \<open>P001\<close> or
  \<open>C001\<close>.  The new record is the last one, its id parses to that integer, and the next
  id is one more again.
\<close>

theorem C9_sequential_ids:
  "(save_product form st = (Success_Product pid, st1) \<longrightarrow>
      Product_ID (last (inventory st1)) = pid \<and>
      (if inventory st = [] then pid = ''P001''
       else \<exists>n. py_int (drop 1 (Product_ID (last (inventory st)))) = Some n \<and>
              pid = CHR ''P'' # format_d 3 (n + 1)) \<and>
      (\<exists>m. py_int (drop 1 pid) = Some m \<and> 4 \<le> length pid \<and>
           (0 \<le> m \<and> m < 1000 \<longrightarrow> length pid = 4) \<and>
           new_product_id (inventory st1) = Some (CHR ''P'' # format_d 3 (m + 1)))) \<and>
   (save_customer cform today st = (Success_Customer cid, st2) \<longrightarrow>
      Customer_ID (last (customers st2)) = cid \<and>
      (if customers st = [] then cid = ''C001''
       else \<exists>n. py_int (drop 1 (Customer_ID (last (customers st)))) = Some n \<and>
              cid = CHR ''C'' # format_d 3 (n + 1)) \<and>
      (\<exists>m. py_int (drop 1 cid) = Some m \<and> 4 \<le> length cid \<and>
           (0 \<le> m \<and> m < 1000 \<longrightarrow> length cid = 4) \<and>
           new_customer_id (customers st2) = Some (CHR ''C'' # format_d 3 (m + 1))))"
proof (intro conjI impI)
  assume a: "save_product form st = (Success_Product pid, st1)"
  from save_product_success [OF a] obtain p where
    nid: "new_product_id (inventory st) = Some pid" and
    st1: "st1 = st\<lparr>inventory := inventory st @ [p\<lparr>Product_ID := pid\<rparr>]\<rparr>"
    by blast
  from st1 show "Product_ID (last (inventory st1)) = pid" by simp
  from new_product_id_next [OF nid, of p]
  show "if inventory st = [] then pid = ''P001''
       else \<exists>n. py_int (drop 1 (Product_ID (last (inventory st)))) = Some n \<and>
              pid = CHR ''P'' # format_d 3 (n + 1)"
    by blast
  from new_product_id_next [OF nid, of p] st1
  show "\<exists>m. py_int (drop 1 pid) = Some m \<and> 4 \<le> length pid \<and>
           (0 \<le> m \<and> m < 1000 \<longrightarrow> length pid = 4) \<and>
           new_product_id (inventory st1) = Some (CHR ''P'' # format_d 3 (m + 1))"
    by simp
next
  assume a: "save_customer cform today st = (Success_Customer cid, st2)"
  from save_customer_success [OF a] obtain c where
    nid: "new_customer_id (customers st) = Some cid" and
    st2: "st2 = st\<lparr>customers := customers st @ [c\<lparr>Customer_ID := cid\<rparr>]\<rparr>"
    by blast
  from st2 show "Customer_ID (last (customers st2)) = cid" by simp
  from new_customer_id_next [OF nid, of c]
  show "if customers st = [] then cid = ''C001''
       else \<exists>n. py_int (drop 1 (Customer_ID (last (customers st)))) = Some n \<and>
              cid = CHR ''C'' # format_d 3 (n + 1)"
    by blast
  from new_customer_id_next [OF nid, of c] st2
  show "\<exists>m. py_int (drop 1 cid) = Some m \<and> 4 \<le> length cid \<and>
           (0 \<le> m \<and> m < 1000 \<longrightarrow> length cid = 4) \<and>
           new_customer_id (customers st2) = Some (CHR ''C'' # format_d 3 (m + 1))"
    by simp
qed

theorem C9_sequential_ids_witness:
  "fst (save_product tea_form empty_shop) = Success_Product ''P001'' \<and>
   new_product_id (inventory (snd (save_product tea_form empty_shop))) = Some ''P002'' \<and>
   fst (save_product tea_form example_shop) = Success_Product ''P002'' \<and>
   new_product_id (inventory (snd (save_product tea_form example_shop))) = Some ''P003'' \<and>
   fst (save_customer ravi_form ''2024-05-01'' empty_shop) = Success_Customer ''C001'' \<and>
   new_customer_id (customers (snd (save_customer ravi_form ''2024-05-01'' empty_shop))) = Some ''C002'' \<and>
   fst (save_customer ravi_form ''2024-05-01'' example_shop) = Success_Customer ''C002'' \<and>
   new_customer_id (customers (snd (save_customer ravi_form ''2024-05-01'' example_shop))) = Some ''C003''"
proof -
  have p0: "save_product tea_form empty_shop
      = (Success_Product ''P001'', snd (save_product tea_form empty_shop))"
    by code_simp
  have p1: "save_product tea_form example_shop
      = (Success_Product ''P002'', snd (save_product tea_form example_shop))"
    by code_simp
  have c0: "save_customer ravi_form ''2024-05-01'' empty_shop
      = (Success_Customer ''C001'', snd (save_customer ravi_form ''2024-05-01'' empty_shop))"
    by code_simp
  have c1: "save_customer ravi_form ''2024-05-01'' example_shop
      = (Success_Customer ''C002'', snd (save_customer ravi_form ''2024-05-01'' example_shop))"
    by code_simp
  have n1: "py_int ''001'' = Some 1" and n2: "py_int ''002'' = Some 2"
    by code_simp+
  have f: "format_d 3 2 = ''002''" "format_d 3 3 = ''003''"
    by code_simp+
  note inst = C9_sequential_ids [of tea_form _ _ _ ravi_form "''2024-05-01''"]
  from inst [of empty_shop "''P001''" "snd (save_product tea_form empty_shop)"
      "''C001''" "snd (save_customer ravi_form ''2024-05-01'' empty_shop)"] p0 c0 n1 f
  have e: "new_product_id (inventory (snd (save_product tea_form empty_shop))) = Some ''P002''"
    "new_customer_id (customers (snd (save_customer ravi_form ''2024-05-01'' empty_shop))) = Some ''C002''"
    by auto
  from inst [of example_shop "''P002''" "snd (save_product tea_form example_shop)"
      "''C002''" "snd (save_customer ravi_form ''2024-05-01'' example_shop)"] p1 c1 n2 f
  have x: "new_product_id (inventory (snd (save_product tea_form example_shop))) = Some ''P003''"
    "new_customer_id (customers (snd (save_customer ravi_form ''2024-05-01'' example_shop))) = Some ''C003''"
    by auto
  from p0 p1 c0 c1 e x show ?thesis by (metis fst_conv)
qed

section \<open>Stock at checkout\<close>

text \<open>
  C1.  The stock of a product is meant never to fall below zero at a checkout.  With a
  stock of 5, two cart lines of 3 for the same product each pass the check of
  \<open>add_item\<close>; the checkout then commits both and leaves the stock at \<open>-1\<close>.
\<close>

theorem C1_stock_below_zero:
  "fst (add_to_cart (Some ''P001'') ''3'' scarce_shop) = No_Message \<and>
   fst (add_to_cart (Some ''P001'') ''3'' (snd (add_to_cart (Some ''P001'') ''3'' scarce_shop)))
     = No_Message \<and>
   map Stock_Quantity (inventory scarce_cart_shop) = [5] \<and>
   map quantity (current_cart scarce_cart_shop) = [3, 3] \<and>
   fst (process_sale ''C001 - Asha'' ''Cash'' ''2024-05-01'' ''10:00:00'' scarce_cart_shop)
     = Success_Sale ''S0001'' 480 \<and>
   map Stock_Quantity (inventory (snd (process_sale ''C001 - Asha'' ''Cash'' ''2024-05-01''
     ''10:00:00'' scarce_cart_shop))) = [- 1] \<and>
   length (sales_records (snd (process_sale ''C001 - Asha'' ''Cash'' ''2024-05-01''
     ''10:00:00'' scarce_cart_shop))) = 2"
  by code_simp

section \<open>Sale ids\<close>

text \<open>
  C4, as stated, fails: after one earlier sale the ledger holds one distinct sale id, so
  the stated id is \<open>S0002\<close>; the program assigns \<open>S0002\<close> when that sale had one
  line and \<open>S0003\<close> when it had two.
\<close>

theorem C4_sale_id_counterexample:
  "remdups (map Sale_ID (sales_records after_one_line_sale)) = [''S0001''] \<and>
   remdups (map Sale_ID (sales_records after_two_line_sale)) = [''S0001''] \<and>
   CHR ''S'' # format_d 4
     (int (length (remdups (map Sale_ID (sales_records after_two_line_sale)))) + 1) = ''S0002'' \<and>
   fst (process_sale ''C001 - Asha'' ''Cash'' ''2024-05-02'' ''09:00:00'' after_one_line_sale)
     = Success_Sale ''S0002'' 80 \<and>
   fst (process_sale ''C001 - Asha'' ''Cash'' ''2024-05-02'' ''09:00:00'' after_two_line_sale)
     = Success_Sale ''S0003'' 80"
  by code_simp

text \<open>
  C4, amended.  The sale id of a checkout is \<open>S\<close> followed by the number of rows of
  the ledger plus 1, zero-padded to four digits; every row the checkout appends carries
  it, one row per cart line, and on an empty ledger it is \<open>S0001\<close>.
\<close>

theorem C4_sale_id_from_row_count:
  assumes "process_sale ci pay d t st = (Success_Sale sid tot, st')"
  shows "sid = CHR ''S'' # format_d 4 (int (length (sales_records st)) + 1) \<and>
         take (length (sales_records st)) (sales_records st') = sales_records st \<and>
         length (sales_records st') = length (sales_records st) + length (current_cart st) \<and>
         (\<forall>r\<in>set (drop (length (sales_records st)) (sales_records st')). Sale_ID r = sid) \<and>
         (sales_records st = [] \<longrightarrow> sid = ''S0001'')"
proof -
  from process_sale_success [OF assms] obtain invt' where
    sid: "sid = CHR ''S'' # format_d 4 (int (length (sales_records st)) + 1)" and
    loop: "sale_loop (sale_row sid d t (split_dash ci ! 0) (split_dash ci ! 1) pay)
             (current_cart st) (inventory st) (sales_records st) 0
            = Inr (invt', sales_records st', tot)"
    by blast
  from sale_loop_Inr [OF loop] have rows: "sales_records st' = sales_records st @
      map (sale_row sid d t (split_dash ci ! 0) (split_dash ci ! 1) pay) (current_cart st)"
    by simp
  have first: "CHR ''S'' # format_d 4 1 = ''S0001''" by code_simp
  from sid rows first show ?thesis by (auto simp: sale_row_def)
qed

theorem C4_sale_id_from_row_count_witness:
  "fst (process_sale ''C001 - Asha'' ''Cash'' ''2024-05-02'' ''09:00:00'' after_two_line_sale)
     = Success_Sale ''S0003'' 80 \<and>
   length (sales_records after_two_line_sale) = 2 \<and>
   ''S0003'' = CHR ''S'' # format_d 4 (int (length (sales_records after_two_line_sale)) + 1)"
proof -
  have msg: "fst (process_sale ''C001 - Asha'' ''Cash'' ''2024-05-02'' ''09:00:00''
      after_two_line_sale) = Success_Sale ''S0003'' 80"
    by code_simp
  then have run: "process_sale ''C001 - Asha'' ''Cash'' ''2024-05-02'' ''09:00:00''
      after_two_line_sale = (Success_Sale ''S0003'' 80,
        snd (process_sale ''C001 - Asha'' ''Cash'' ''2024-05-02'' ''09:00:00'' after_two_line_sale))"
    by (metis prod.collapse)
  have len: "length (sales_records after_two_line_sale) = 2" by code_simp
  from C4_sale_id_from_row_count [OF run] msg len show ?thesis by blast
qed

section \<open>Shopping list to cart\<close>

text \<open>
  C7, as stated, fails: the list names \<open>Rice (1kg)\<close> and the unknown \<open>Saffron\<close>; the
  rice line reaches the cart, and the only message is the count of items added.  Nothing
  records the unknown product.
\<close>

theorem C7_unknown_item_counterexample:
  "add_shopping_list_to_cart ''C001 - Asha'' listed_shop
     = ([Success_Items_Added 1],
        listed_shop\<lparr>current_cart :=
          [\<lparr>product_id = ''P001'', product_name = ''Rice (1kg)'', quantity = 2,
            unit_price = 80, total = 160\<rparr>]\<rparr>) \<and>
   find (\<lambda>p. Product_Name p = ''Saffron'') (inventory listed_shop) = None \<and>
   map list_product (the (map_of (shopping_lists listed_shop) ''C001''))
     = [''Rice (1kg)'', ''Saffron'']"
  by code_simp

lemma list_loop_items:
  "list_loop invt items cart n =
     (List.map_filter (shown_warning invt) items,
      cart @ List.map_filter (accepted_line invt) items,
      n + length (List.map_filter (accepted_line invt) items))"
proof (induction items arbitrary: cart n)
  case Nil
  then show ?case by (simp add: List.map_filter_simps)
next
  case (Cons li rest)
  show ?case
  proof (cases "find (\<lambda>p. Product_Name p = list_product li) invt")
    case None
    then show ?thesis
      by (simp add: Cons.IH List.map_filter_simps shown_warning_def accepted_line_def)
  next
    case (Some product)
    then show ?thesis
      by (simp add: Cons.IH List.map_filter_simps shown_warning_def accepted_line_def)
  qed
qed

text \<open>
  C7, amended.  For a selected customer with a non-empty list, every entry is treated on
  its own against the catalog: an entry whose name matches a product (the first match)
  with enough stock appends a cart line at the catalog price; one with too little stock
  shows a stock warning with the product name, the stock and the requested quantity; one
  whose name matches no product leaves no trace.  The last message is the number of lines
  added, or a warning when there is none.
\<close>

theorem C7_list_items_independent:
  assumes "customer_info \<noteq> []"
    and "map_of (shopping_lists st) (hd (split_dash customer_info)) = Some items"
    and "items \<noteq> []"
  shows "add_shopping_list_to_cart customer_info st =
           (List.map_filter (shown_warning (inventory st)) items @
              [if List.map_filter (accepted_line (inventory st)) items \<noteq> []
               then Success_Items_Added (length (List.map_filter (accepted_line (inventory st)) items))
               else Warning_No_Items_Added],
            st\<lparr>current_cart :=
              current_cart st @ List.map_filter (accepted_line (inventory st)) items\<rparr>)"
  using assms
  by (simp add: add_shopping_list_to_cart_def Let_def list_loop_items)

theorem C7_list_items_independent_witness:
  "map_of (shopping_lists listed_shop) (hd (split_dash ''C001 - Asha''))
     = Some [\<lparr>list_product = ''Rice (1kg)'', list_quantity = 2, list_notes = []\<rparr>,
             \<lparr>list_product = ''Saffron'', list_quantity = 1, list_notes = ''if any''\<rparr>] \<and>
   add_shopping_list_to_cart ''C001 - Asha'' listed_shop
     = ([Success_Items_Added 1],
        listed_shop\<lparr>current_cart :=
          [\<lparr>product_id = ''P001'', product_name = ''Rice (1kg)'', quantity = 2,
            unit_price = 80, total = 160\<rparr>]\<rparr>)"
proof -
  let ?items = "[\<lparr>list_product = ''Rice (1kg)'', list_quantity = 2, list_notes = []\<rparr>,
             \<lparr>list_product = ''Saffron'', list_quantity = 1, list_notes = ''if any''\<rparr>]"
  have a: "''C001 - Asha'' \<noteq> []" by simp
  have b: "map_of (shopping_lists listed_shop) (hd (split_dash ''C001 - Asha'')) = Some ?items"
    by code_simp
  have c: "?items \<noteq> []" by simp
  have lines: "List.map_filter (accepted_line (inventory listed_shop)) ?items
      = [\<lparr>product_id = ''P001'', product_name = ''Rice (1kg)'', quantity = 2,
            unit_price = 80, total = 160\<rparr>]"
    by code_simp
  have warns: "List.map_filter (shown_warning (inventory listed_shop)) ?items = []"
    by code_simp
  have cart: "current_cart listed_shop = []" by code_simp
  have "add_shopping_list_to_cart ''C001 - Asha'' listed_shop
     = ([Success_Items_Added 1],
        listed_shop\<lparr>current_cart :=
          [\<lparr>product_id = ''P001'', product_name = ''Rice (1kg)'', quantity = 2,
            unit_price = 80, total = 160\<rparr>]\<rparr>)"
    using C7_list_items_independent [OF a b c] unfolding lines warns cart by simp
  with b show ?thesis by blast
qed

section \<open>Adding a product\<close>

text \<open>
  C8, as stated, fails: a product with name, category and supplier filled in and the
  price \<open>-5\<close> is accepted and appended to the catalog.
\<close>

theorem C8_negative_price_counterexample:
  "name_var free_form \<noteq> [] \<and> category_var free_form \<noteq> [] \<and> supplier_var free_form \<noteq> [] \<and>
   price_var free_form = Some (- 5) \<and>
   fst (save_product free_form example_shop) = Success_Product ''P002'' \<and>
   map Unit_Price (inventory (snd (save_product free_form example_shop))) = [80, - 5]"
  by code_simp

text \<open>
  C8, amended.  Adding a product fails, and leaves the shop as it is, when the name, the
  category or the supplier is empty, when the price, the stock or the minimum stock is
  not a number, or when the catalog is not empty and the id of its last row, after the
  first character, does not read as an integer (\<open>new_product_id\<close> gives \<open>None\<close>).
  With the three texts filled in, the stock and the minimum stock integers, a catalog
  that is empty or whose last id reads as an integer (\<open>new_product_id\<close> gives the id)
  and a price that is any number other than zero, negative ones included, the product
  is appended to the catalog under that id.
\<close>

theorem C8_product_validation:
  "(name_var form = [] \<or> category_var form = [] \<or> supplier_var form = [] \<or>
    price_var form = None \<or> py_int (stock_var form) = None \<or>
    py_int (min_stock_var form) = None \<or> new_product_id (inventory st) = None \<longrightarrow>
      (fst (save_product form st) = Error_All_Fields_Required \<or>
       fst (save_product form st) = Error_Valid_Numbers) \<and>
      snd (save_product form st) = st) \<and>
   (name_var form \<noteq> [] \<and> category_var form \<noteq> [] \<and> supplier_var form \<noteq> [] \<and>
    price_var form = Some price \<and> price \<noteq> 0 \<and> py_int (stock_var form) = Some stock \<and>
    py_int (min_stock_var form) = Some min_stock \<and>
    new_product_id (inventory st) = Some pid \<longrightarrow>
      save_product form st =
        (Success_Product pid,
         st\<lparr>inventory := inventory st @
           [\<lparr>Product_ID = pid, Product_Name = name_var form, Category = category_var form,
             Unit_Price = price, Stock_Quantity = stock, Min_Stock_Level = min_stock,
             Supplier = supplier_var form\<rparr>]\<rparr>))"
  by (auto simp: save_product_def split: option.splits)

theorem C8_product_validation_witness:
  "fst (save_product (tea_form\<lparr>name_var := []\<rparr>) example_shop) = Error_All_Fields_Required \<and>
   snd (save_product (tea_form\<lparr>name_var := []\<rparr>) example_shop) = example_shop \<and>
   new_product_id (inventory example_shop) = Some ''P002'' \<and>
   py_int (stock_var free_form) = Some 12 \<and> py_int (min_stock_var free_form) = Some 4 \<and>
   save_product free_form example_shop =
     (Success_Product ''P002'',
      example_shop\<lparr>inventory := inventory example_shop @
        [\<lparr>Product_ID = ''P002'', Product_Name = ''Tea (250g)'', Category = ''Beverages'',
          Unit_Price = - 5, Stock_Quantity = 12, Min_Stock_Level = 4,
          Supplier = ''Supplier G''\<rparr>]\<rparr>)"
proof -
  have empty: "name_var (tea_form\<lparr>name_var := []\<rparr>) = []" by simp
  have msg: "fst (save_product (tea_form\<lparr>name_var := []\<rparr>) example_shop)
      = Error_All_Fields_Required"
    by code_simp
  have same: "snd (save_product (tea_form\<lparr>name_var := []\<rparr>) example_shop) = example_shop"
    using C8_product_validation [of "tea_form\<lparr>name_var := []\<rparr>" example_shop] empty by blast
  have f: "name_var free_form = ''Tea (250g)''" "category_var free_form = ''Beverages''"
    "supplier_var free_form = ''Supplier G''" "price_var free_form = Some (- 5)"
    by (simp_all add: free_form_def tea_form_def)
  have n: "py_int (stock_var free_form) = Some 12" "py_int (min_stock_var free_form) = Some 4"
    "new_product_id (inventory example_shop) = Some ''P002''"
    by code_simp+
  have "save_product free_form example_shop =
     (Success_Product ''P002'',
      example_shop\<lparr>inventory := inventory example_shop @
        [\<lparr>Product_ID = ''P002'', Product_Name = name_var free_form,
          Category = category_var free_form,
          Unit_Price = - 5, Stock_Quantity = 12, Min_Stock_Level = 4,
          Supplier = supplier_var free_form\<rparr>]\<rparr>)"
    using C8_product_validation [of free_form example_shop "- 5" 12 4 "''P002''"] f n by simp
  with msg same n f show ?thesis by simp
qed

section \<open>Stock taken by a checkout\<close>

lemma first_index_map:
  "first_index (\<lambda>p. f p = k) xs = first_index (\<lambda>y. y = k) (map f xs)"
  by (induction xs) simp_all

lemma taken_ids:
  assumes "map Product_ID a = map Product_ID b"
  shows "taken a cart j = taken b cart j"
proof -
  have "\<And>k. first_index (\<lambda>p. Product_ID p = k) a = first_index (\<lambda>p. Product_ID p = k) b"
    using assms by (simp add: first_index_map [where f = Product_ID])
  then show ?thesis by (simp add: taken_def)
qed

lemma taken_Cons:
  "taken invt (item # rest) j =
     (if first_index (\<lambda>p. Product_ID p = product_id item) invt = Some j then quantity item else 0)
       + taken invt rest j"
  by (simp add: taken_def)

lemma decrement_stock_nth:
  assumes "idx < length invt" "j < length invt"
  shows "decrement_stock idx qty invt ! j =
     (invt ! j)\<lparr>Stock_Quantity := Stock_Quantity (invt ! j) - (if idx = j then qty else 0)\<rparr>"
  using assms by (simp add: decrement_stock_def nth_list_update)

lemma sale_loop_stock:
  "sale_loop row cart invt sales tot = Inr (invt', sales', tot') \<Longrightarrow>
     length invt' = length invt \<and>
     (\<forall>j<length invt.
        invt' ! j = (invt ! j)\<lparr>Stock_Quantity := Stock_Quantity (invt ! j) - taken invt cart j\<rparr>)"
proof (induction cart arbitrary: invt sales tot)
  case Nil
  then show ?case by (simp add: taken_def)
next
  case (Cons item rest)
  from Cons.prems obtain idx where
    idx: "first_index (\<lambda>p. Product_ID p = product_id item) invt = Some idx" and
    run: "sale_loop row rest (decrement_stock idx (quantity item) invt) (sales @ [row item])
            (tot + total item) = Inr (invt', sales', tot')"
    by (auto simp: Let_def split: option.splits)
  let ?invt1 = "decrement_stock idx (quantity item) invt"
  from first_index_Some [OF idx] have lt: "idx < length invt" by simp
  have len1: "length ?invt1 = length invt" by (simp add: decrement_stock_def)
  from Cons.IH [OF run] have len: "length invt' = length invt"
    and step: "\<forall>j<length invt. invt' ! j =
      (?invt1 ! j)\<lparr>Stock_Quantity := Stock_Quantity (?invt1 ! j) - taken ?invt1 rest j\<rparr>"
    by (simp_all add: len1)
  have same: "\<And>j. taken ?invt1 rest j = taken invt rest j"
    by (rule taken_ids) (rule decrement_stock_ids)
  have "\<forall>j<length invt. invt' ! j =
      (invt ! j)\<lparr>Stock_Quantity := Stock_Quantity (invt ! j) - taken invt (item # rest) j\<rparr>"
  proof (intro allI impI)
    fix j assume j: "j < length invt"
    from step j have "invt' ! j =
      (?invt1 ! j)\<lparr>Stock_Quantity := Stock_Quantity (?invt1 ! j) - taken invt rest j\<rparr>"
      by (simp add: same)
    then show "invt' ! j =
      (invt ! j)\<lparr>Stock_Quantity := Stock_Quantity (invt ! j) - taken invt (item # rest) j\<rparr>"
      using idx by (auto simp: decrement_stock_nth [OF lt j] taken_Cons)
  qed
  with len show ?case by simp
qed

text \<open>
  C2.  A checkout is meant to check every cart line against the stock of that moment, and
  to fail without any change when a line asks for more.  Here a line of 3 is added while
  the stock is 5, and the stock is then set to 2 through the stock dialog; the checkout
  succeeds, appends the row, credits the customer, empties the cart and leaves the stock
  at \<open>-1\<close>.
\<close>

theorem C2_checkout_without_stock_check:
  "map Stock_Quantity (inventory scarce_shop) = [5] \<and>
   fst (add_to_cart (Some ''P001'') ''3'' scarce_shop) = No_Message \<and>
   stock_display (rice\<lparr>Stock_Quantity := 5\<rparr>) = Str_Cell ''5 (LOW!)'' \<and>
   fst (update_stock_dialog (Some (rice\<lparr>Stock_Quantity := 5\<rparr>)) ''2''
     (snd (add_to_cart (Some ''P001'') ''3'' scarce_shop))) = Success_Stock_Updated \<and>
   map quantity (current_cart lowered_cart_shop) = [3] \<and>
   map Stock_Quantity (inventory lowered_cart_shop) = [2] \<and>
   fst (process_sale ''C001 - Asha'' ''Cash'' ''2024-05-01'' ''10:00:00'' lowered_cart_shop)
     = Success_Sale ''S0001'' 240 \<and>
   map Stock_Quantity (inventory (snd (process_sale ''C001 - Asha'' ''Cash'' ''2024-05-01''
     ''10:00:00'' lowered_cart_shop))) = [- 1] \<and>
   length (sales_records (snd (process_sale ''C001 - Asha'' ''Cash'' ''2024-05-01''
     ''10:00:00'' lowered_cart_shop))) = 1 \<and>
   map Total_Purchases (customers (snd (process_sale ''C001 - Asha'' ''Cash'' ''2024-05-01''
     ''10:00:00'' lowered_cart_shop))) = [240] \<and>
   current_cart (snd (process_sale ''C001 - Asha'' ''Cash'' ''2024-05-01''
     ''10:00:00'' lowered_cart_shop)) = []"
  by code_simp

section \<open>Unknown customer\<close>

text \<open>
  C6, as stated, fails: with the customer id \<open>C999\<close> absent from the customer table,
  the checkout succeeds, appends the row and takes 3 from the stock.
\<close>

theorem C6_unknown_customer_counterexample:
  "map Customer_ID (customers example_cart_shop) = [''C001''] \<and>
   current_cart example_cart_shop \<noteq> [] \<and>
   fst (process_sale ''C999 - Bela'' ''Cash'' ''2024-05-01'' ''10:00:00'' example_cart_shop)
     = Success_Sale ''S0001'' 240 \<and>
   map Sale_Customer_ID (sales_records (snd (process_sale ''C999 - Bela'' ''Cash''
     ''2024-05-01'' ''10:00:00'' example_cart_shop))) = [''C999''] \<and>
   map Stock_Quantity (inventory example_cart_shop) = [50] \<and>
   map Stock_Quantity (inventory (snd (process_sale ''C999 - Bela'' ''Cash''
     ''2024-05-01'' ''10:00:00'' example_cart_shop))) = [47]"
  by code_simp

lemma credit_customer_unknown:
  "customer_id \<notin> Customer_ID ` set cs \<Longrightarrow> credit_customer customer_id amount cs = cs"
proof -
  assume "customer_id \<notin> Customer_ID ` set cs"
  then have "first_index (\<lambda>c. Customer_ID c = customer_id) cs = None"
    by (auto simp: first_index_None)
  then show ?thesis by (simp add: credit_customer_def)
qed

text \<open>
  C6, amended.  When the cart is not empty, the customer text has the form
  \<open>id - name\<close>, the id is in no row of the customer table and every cart line names a
  product of the catalog, the checkout succeeds: it appends one row per cart line under
  that id and name, lowers the stock of every catalog row by the quantities of the lines
  whose product id finds that row, leaves the customer table as it is and empties the
  cart.
\<close>

theorem C6_unknown_customer_sale_commits:
  assumes "current_cart st \<noteq> []"
    and "split_dash ci = cid # cname # others"
    and "cid \<notin> Customer_ID ` set (customers st)"
    and "\<forall>item\<in>set (current_cart st). product_id item \<in> Product_ID ` set (inventory st)"
  shows "\<exists>tot st'.
           process_sale ci pay d t st
             = (Success_Sale (CHR ''S'' # format_d 4 (int (length (sales_records st)) + 1)) tot, st') \<and>
           customers st' = customers st \<and>
           sales_records st' = sales_records st @
             map (sale_row (CHR ''S'' # format_d 4 (int (length (sales_records st)) + 1))
                    d t cid cname pay) (current_cart st) \<and>
           length (inventory st') = length (inventory st) \<and>
           (\<forall>j<length (inventory st).
              inventory st' ! j = (inventory st ! j)
                \<lparr>Stock_Quantity := Stock_Quantity (inventory st ! j)
                   - taken (inventory st) (current_cart st) j\<rparr>) \<and>
           current_cart st' = []"
proof -
  let ?sid = "CHR ''S'' # format_d 4 (int (length (sales_records st)) + 1)"
  let ?row = "sale_row ?sid d t cid cname pay"
  from assms(2) have ci: "ci \<noteq> []"
    by (auto simp: split_dash_def)
  from sale_loop_total [OF assms(4), of ?row "sales_records st" 0] obtain invt' tot where
    loop: "sale_loop ?row (current_cart st) (inventory st) (sales_records st) 0
       = Inr (invt', sales_records st @ map ?row (current_cart st), tot)"
    by blast
  have run: "process_sale ci pay d t st = (Success_Sale ?sid tot,
      st\<lparr>inventory := invt', sales_records := sales_records st @ map ?row (current_cart st),
         customers := customers st, current_cart := []\<rparr>)"
    using assms(1,2,3) ci loop
    by (simp add: process_sale_def Let_def clear_cart_def credit_customer_unknown)
  from sale_loop_stock [OF loop] run show ?thesis by simp
qed

theorem C6_unknown_customer_sale_commits_witness:
  "map product_id (current_cart example_cart_shop) = [''P001''] \<and>
   split_dash ''C999 - Bela'' = [''C999'', ''Bela''] \<and>
   map Customer_ID (customers example_cart_shop) = [''C001''] \<and>
   map Product_ID (inventory example_cart_shop) = [''P001''] \<and>
   customers (snd (process_sale ''C999 - Bela'' ''Cash'' ''2024-05-01'' ''10:00:00''
     example_cart_shop)) = customers example_cart_shop \<and>
   Stock_Quantity (inventory example_cart_shop ! 0) = 50 \<and>
   Stock_Quantity (inventory (snd (process_sale ''C999 - Bela'' ''Cash'' ''2024-05-01''
     ''10:00:00'' example_cart_shop)) ! 0) = 47"
proof -
  have a: "current_cart example_cart_shop \<noteq> []" by code_simp
  have b: "split_dash ''C999 - Bela'' = [''C999'', ''Bela'']" by code_simp
  have c: "''C999'' \<notin> Customer_ID ` set (customers example_cart_shop)" by code_simp
  have d: "\<forall>item\<in>set (current_cart example_cart_shop).
      product_id item \<in> Product_ID ` set (inventory example_cart_shop)"
    by code_simp
  have n: "0 < length (inventory example_cart_shop)" by code_simp
  have q: "Stock_Quantity (inventory example_cart_shop ! 0) = 50"
    "taken (inventory example_cart_shop) (current_cart example_cart_shop) 0 = 3"
    by code_simp+
  from C6_unknown_customer_sale_commits [where st = example_cart_shop and ci = "''C999 - Bela''"
      and pay = "''Cash''" and d = "''2024-05-01''" and t = "''10:00:00''", OF a b c d]
  obtain tot st' where
    run: "process_sale ''C999 - Bela'' ''Cash'' ''2024-05-01'' ''10:00:00'' example_cart_shop
       = (Success_Sale (CHR ''S'' # format_d 4 (int (length (sales_records example_cart_shop)) + 1))
            tot, st')" and
    cust: "customers st' = customers example_cart_shop" and
    stock: "\<forall>j<length (inventory example_cart_shop).
      inventory st' ! j = (inventory example_cart_shop ! j)
        \<lparr>Stock_Quantity := Stock_Quantity (inventory example_cart_shop ! j)
           - taken (inventory example_cart_shop) (current_cart example_cart_shop) j\<rparr>"
    by blast
  from stock n q have "Stock_Quantity (inventory st' ! 0) = 47" by simp
  with run cust have
    "customers (snd (process_sale ''C999 - Bela'' ''Cash'' ''2024-05-01'' ''10:00:00''
       example_cart_shop)) = customers example_cart_shop"
    "Stock_Quantity (inventory (snd (process_sale ''C999 - Bela'' ''Cash'' ''2024-05-01''
       ''10:00:00'' example_cart_shop)) ! 0) = 47"
    by simp_all
  moreover have "map product_id (current_cart example_cart_shop) = [''P001'']"
    "map Customer_ID (customers example_cart_shop) = [''C001'']"
    "map Product_ID (inventory example_cart_shop) = [''P001'']"
    by code_simp+
  ultimately show ?thesis using b q by blast
qed

section \<open>Ledger rows\<close>




















end
